theory Spec2Isabelle
  imports
    Complex_Main
    "HOL-Library.Char_ord"
    "HOL-Library.List_Lexorder"
    "HOL-Library.Multiset"
begin

text \<open>
  A model of the class \<^verbatim>\<open>Vote4Us\<close> of \<^verbatim>\<open>src/vote4us.ts\<close>: the retry loop that fetches the
  producer table, the statistics of the current producer, the account query, the
  operations on the voting state, and the construction of the producer array that
  \<^verbatim>\<open>voteForUs\<close> hands to the wallet. The dialog, the session kit and the network are
  outside the model; what they answer is a parameter of the function that asks.
\<close>

section \<open>JavaScript numbers\<close>

text \<open>
  A JavaScript \<^verbatim>\<open>number\<close> is an IEEE 754 binary64 value: a NaN, an infinity, a zero with
  a sign, or a finite non-zero value. \<open>Finite 0\<close> is \<open>+0\<close> and \<open>NegZero\<close> is \<open>-0\<close>; the
  finite values that arise are exact rationals rounded to binary64 by \<open>fl\<close>
  (round to nearest, ties to even, gradual underflow, overflow to infinity).
\<close>

datatype number = NaN | PosInfinity | NegInfinity | NegZero | Finite rat

definition pow2 :: "int \<Rightarrow> rat" where
  "pow2 e = (if 0 \<le> e then 2 ^ nat e else 1 / 2 ^ nat (- e))"

text \<open>How often a value of at least 1 can be halved before it is below 2, and how often a
  positive value below 1 must be doubled to reach 1.\<close>

function halvings :: "rat \<Rightarrow> nat" where
  "halvings r = (if r < 2 then 0 else Suc (halvings (r / 2)))"
  by pat_completeness auto
termination
proof (relation "measure (\<lambda>r. nat \<lfloor>r\<rfloor>)")
  show "wf (measure (\<lambda>r::rat. nat \<lfloor>r\<rfloor>))"
    by simp
next
  fix r :: rat
  assume "\<not> r < 2"
  then have "r / 2 \<le> r - 1" and "2 \<le> \<lfloor>r\<rfloor>"
    by (simp_all add: le_floor_iff)
  then have "\<lfloor>r / 2\<rfloor> \<le> \<lfloor>r\<rfloor> - 1" and "0 < \<lfloor>r\<rfloor>"
    using floor_mono [of "r / 2" "r - 1"] by simp_all
  then show "(r / 2, r) \<in> measure (\<lambda>r. nat \<lfloor>r\<rfloor>)"
    by simp
qed

function doublings :: "rat \<Rightarrow> nat" where
  "doublings r = (if r \<le> 0 \<or> 1 \<le> r then 0 else Suc (doublings (2 * r)))"
  by pat_completeness auto
termination
proof (relation "measure (\<lambda>r. nat \<lceil>1 / r\<rceil>)")
  show "wf (measure (\<lambda>r::rat. nat \<lceil>1 / r\<rceil>))"
    by simp
next
  fix r :: rat
  assume "\<not> (r \<le> 0 \<or> 1 \<le> r)"
  then have r: "0 < r" "r < 1"
    by simp_all
  then have "1 < 1 / r"
    by simp
  then have n: "2 \<le> \<lceil>1 / r\<rceil>"
    by linarith
  have "1 / (2 * r) = (1 / r) / 2"
    by simp
  also have "\<dots> \<le> of_int \<lceil>1 / r\<rceil> / 2"
    by (simp add: divide_right_mono)
  also have "\<dots> \<le> of_int (\<lceil>1 / r\<rceil> - 1)"
    using n by simp
  finally have "\<lceil>1 / (2 * r)\<rceil> \<le> \<lceil>1 / r\<rceil> - 1"
    by (simp only: ceiling_le_iff)
  then show "(2 * r, r) \<in> measure (\<lambda>r. nat \<lceil>1 / r\<rceil>)"
    using n r by simp
qed

declare halvings.simps [simp del] doublings.simps [simp del]

text \<open>The integer \<open>e\<close> with \<open>2^e \<le> r < 2^(e+1)\<close>, for a positive \<open>r\<close>.\<close>

definition floor_log2 :: "rat \<Rightarrow> int" where
  "floor_log2 r = (if 1 \<le> r then int (halvings r) else - int (doublings r))"

definition round_half_even :: "rat \<Rightarrow> int" where
  "round_half_even q =
     (let f = \<lfloor>q\<rfloor>; d = q - of_int f
      in if d < 1 / 2 then f else if 1 / 2 < d then f + 1
         else if even f then f else f + 1)"

text \<open>The binary64 value nearest to a positive rational; \<open>None\<close> is overflow.\<close>

definition binary64 :: "rat \<Rightarrow> rat option" where
  "binary64 r =
     (let e = max (floor_log2 r) (- 1022);
          ulp = pow2 (e - 52);
          v = of_int (round_half_even (r / ulp)) * ulp
      in if pow2 1024 \<le> v then None else Some v)"

definition fl :: "rat \<Rightarrow> number" where
  "fl r =
     (if r = 0 then Finite 0
      else if 0 < r then
        (case binary64 r of None \<Rightarrow> PosInfinity | Some v \<Rightarrow> Finite v)
      else
        (case binary64 (- r) of None \<Rightarrow> NegInfinity
         | Some v \<Rightarrow> if v = 0 then NegZero else Finite (- v)))"

fun is_inf :: "number \<Rightarrow> bool" where
  "is_inf PosInfinity = True"
| "is_inf NegInfinity = True"
| "is_inf _ = False"

fun is_zero :: "number \<Rightarrow> bool" where
  "is_zero NegZero = True"
| "is_zero (Finite r) = (r = 0)"
| "is_zero _ = False"

text \<open>The sign bit of a value that is not a NaN.\<close>

fun sign_bit :: "number \<Rightarrow> bool" where
  "sign_bit NegInfinity = True"
| "sign_bit NegZero = True"
| "sign_bit (Finite r) = (r < 0)"
| "sign_bit _ = False"

fun val :: "number \<Rightarrow> rat" where
  "val (Finite r) = r"
| "val _ = 0"

definition infinity :: "bool \<Rightarrow> number" where
  "infinity neg = (if neg then NegInfinity else PosInfinity)"

definition zero :: "bool \<Rightarrow> number" where
  "zero neg = (if neg then NegZero else Finite 0)"

fun num_neg :: "number \<Rightarrow> number" where
  "num_neg NaN = NaN"
| "num_neg PosInfinity = NegInfinity"
| "num_neg NegInfinity = PosInfinity"
| "num_neg NegZero = Finite 0"
| "num_neg (Finite r) = (if r = 0 then NegZero else Finite (- r))"

text \<open>\<^verbatim>\<open>a + b\<close>\<close>

definition num_add :: "number \<Rightarrow> number \<Rightarrow> number" where
  "num_add a b =
     (if a = NaN \<or> b = NaN then NaN
      else if is_inf a then (if is_inf b \<and> a \<noteq> b then NaN else a)
      else if is_inf b then b
      else if is_zero a \<and> is_zero b then zero (sign_bit a \<and> sign_bit b)
      else fl (val a + val b))"

text \<open>\<^verbatim>\<open>a - b\<close>\<close>

definition num_sub :: "number \<Rightarrow> number \<Rightarrow> number" where
  "num_sub a b = num_add a (num_neg b)"

text \<open>\<^verbatim>\<open>a * b\<close>\<close>

definition num_mul :: "number \<Rightarrow> number \<Rightarrow> number" where
  "num_mul a b =
     (if a = NaN \<or> b = NaN then NaN
      else if is_inf a \<or> is_inf b then
        (if is_zero a \<or> is_zero b then NaN else infinity (sign_bit a \<noteq> sign_bit b))
      else if is_zero a \<or> is_zero b then zero (sign_bit a \<noteq> sign_bit b)
      else fl (val a * val b))"

text \<open>\<^verbatim>\<open>a / b\<close>\<close>

definition num_div :: "number \<Rightarrow> number \<Rightarrow> number" where
  "num_div a b =
     (if a = NaN \<or> b = NaN then NaN
      else if is_inf a then (if is_inf b then NaN else infinity (sign_bit a \<noteq> sign_bit b))
      else if is_inf b then zero (sign_bit a \<noteq> sign_bit b)
      else if is_zero b then (if is_zero a then NaN else infinity (sign_bit a \<noteq> sign_bit b))
      else if is_zero a then zero (sign_bit a \<noteq> sign_bit b)
      else fl (val a / val b))"

text \<open>\<^verbatim>\<open>Math.round\<close>: the nearest integer, a tie going up; a result of zero keeps the
  sign of the argument.\<close>

fun Math_round :: "number \<Rightarrow> number" where
  "Math_round (Finite r) =
     (let n = \<lfloor>r + 1 / 2\<rfloor> in if n = 0 \<and> r < 0 then NegZero else Finite (of_int n))"
| "Math_round x = x"

subsection \<open>Printing: \<^verbatim>\<open>toFixed(2)\<close>\<close>

definition digit_char :: "nat \<Rightarrow> char" where
  "digit_char d = ''0123456789'' ! d"

fun nat_digits :: "nat \<Rightarrow> string" where
  "nat_digits n =
     (if n < 10 then [digit_char n] else nat_digits (n div 10) @ [digit_char (n mod 10)])"

declare nat_digits.simps [simp del]

text \<open>
  \<^verbatim>\<open>x.toFixed(2)\<close> (ECMAScript, Number.prototype.toFixed). A value that is not finite
  prints as \<^verbatim>\<open>NaN\<close>, \<^verbatim>\<open>Infinity\<close> or \<^verbatim>\<open>-Infinity\<close>. A finite value below \<open>10^21\<close> in
  magnitude prints the integer \<open>n\<close> nearest to \<open>100 * |x|\<close> (the larger one at a tie) with a
  point before its last two digits. At \<open>10^21\<close> and above the method falls back to
  Number::toString, whose last digit ECMAScript leaves to the implementation: that
  printer is the parameter \<open>big\<close>.
\<close>

definition fixed2 :: "rat \<Rightarrow> string" where
  "fixed2 x =
     (let n = nat \<lfloor>x * 100 + 1 / 2\<rfloor>;
          m = nat_digits n;
          m = (if length m \<le> 2 then replicate (3 - length m) CHR ''0'' @ m else m)
      in take (length m - 2) m @ ''.'' @ drop (length m - 2) m)"

fun toFixed2 :: "(rat \<Rightarrow> string) \<Rightarrow> number \<Rightarrow> string" where
  "toFixed2 big NaN = ''NaN''"
| "toFixed2 big PosInfinity = ''Infinity''"
| "toFixed2 big NegInfinity = ''-Infinity''"
| "toFixed2 big NegZero = fixed2 0"
| "toFixed2 big (Finite r) =
     (let s = (if r < 0 then ''-'' else []); x = \<bar>r\<bar>
      in if 10 ^ 21 \<le> x then s @ big x else s @ fixed2 x)"

subsection \<open>Reading: \<^verbatim>\<open>parseFloat\<close>\<close>

definition is_digit :: "char \<Rightarrow> bool" where
  "is_digit c = (48 \<le> (of_char c :: nat) \<and> (of_char c :: nat) \<le> 57)"

definition digits_val :: "string \<Rightarrow> nat" where
  "digits_val ds = foldl (\<lambda>a c. 10 * a + (of_char c - 48)) 0 ds"

definition is_space :: "char \<Rightarrow> bool" where
  "is_space c = ((of_char c :: nat) \<in> {9, 10, 11, 12, 13, 32})"

definition pow10 :: "int \<Rightarrow> rat" where
  "pow10 e = (if 0 \<le> e then 10 ^ nat e else 1 / 10 ^ nat (- e))"

text \<open>The exponent part \<^verbatim>\<open>e[+-]digits\<close> at the head of a string, 0 when there is none.\<close>

definition exponent_part :: "string \<Rightarrow> int" where
  "exponent_part s =
     (case s of
        [] \<Rightarrow> 0
      | c # t \<Rightarrow>
          if c = CHR ''e'' \<or> c = CHR ''E'' then
            (let (neg, u) = (case t of
                               [] \<Rightarrow> (False, t)
                             | d # u \<Rightarrow> if d = CHR ''-'' then (True, u)
                                        else if d = CHR ''+'' then (False, u) else (False, t));
                 ds = takeWhile is_digit u
             in if ds = [] then 0
                else if neg then - int (digits_val ds) else int (digits_val ds))
          else 0)"

text \<open>The exact value of the longest prefix that is an unsigned decimal literal
  (\<^verbatim>\<open>digits\<close>, \<^verbatim>\<open>digits.digits\<close>, \<^verbatim>\<open>digits.\<close>, \<^verbatim>\<open>.digits\<close>, each with an optional exponent);
  \<open>None\<close> when no prefix is one.\<close>

definition unsigned_literal :: "string \<Rightarrow> rat option" where
  "unsigned_literal s =
     (let ip = takeWhile is_digit s;
          r1 = dropWhile is_digit s;
          (fp, r2) = (case r1 of
                        [] \<Rightarrow> ([], r1)
                      | c # t \<Rightarrow> if c = CHR ''.''
                                 then (takeWhile is_digit t, dropWhile is_digit t)
                                 else ([], r1))
      in if ip = [] \<and> fp = [] then None
         else Some ((of_nat (digits_val ip) + of_nat (digits_val fp) / 10 ^ length fp)
                    * pow10 (exponent_part r2)))"

text \<open>\<^verbatim>\<open>parseFloat\<close>: leading white space is skipped (the ASCII white space only: the
  characters of \<^typ>\<open>string\<close> are bytes), then the longest prefix that is a signed
  decimal literal or \<^verbatim>\<open>Infinity\<close> is read and rounded to binary64.\<close>

definition parseFloat :: "string \<Rightarrow> number" where
  "parseFloat str =
     (let s = dropWhile is_space str;
          (neg, u) = (case s of
                        [] \<Rightarrow> (False, s)
                      | c # t \<Rightarrow> if c = CHR ''-'' then (True, t)
                                 else if c = CHR ''+'' then (False, t) else (False, s))
      in if take 8 u = ''Infinity'' then infinity neg
         else case unsigned_literal u of
                None \<Rightarrow> NaN
              | Some m \<Rightarrow> if m = 0 then zero neg else fl (if neg then - m else m))"

section \<open>Data model of \<^verbatim>\<open>vote4us.ts\<close>\<close>

text \<open>
  Producer identifiers are JavaScript strings; they are modelled as \<^typ>\<open>string\<close>.
  The order on \<^typ>\<open>string\<close> (from \<^verbatim>\<open>Char_ord\<close> and \<^verbatim>\<open>List_Lexorder\<close>) is
  the lexicographic order on character codes, which is what \<^verbatim>\<open>Array.prototype.sort()\<close>
  without a comparator uses.
\<close>

type_synonym BlockProducers = "string list"

text \<open>\<^verbatim>\<open>LoggedAccount\<close>: the \<^verbatim>\<open>user: Session\<close> field is an opaque handle of the wallet
  library and is left out.\<close>

record LoggedAccount =
  name :: string
  permission :: string

record Statics =
  rank :: int
  votes :: number
  totalVotes :: number
  percentage :: string
  list :: "string list"

record Vote4UsConfig =
  currentProducer :: string
  suggestedBPs :: "string list"
  notSuggestedBPs :: "string list"
  expectedBPs :: int

record Vote4UsState =
  originalBPSelection :: BlockProducers
  modifiedBPSelection :: BlockProducers
  roomForMoreBPs :: int
  logged :: "LoggedAccount option"
  currentProducerStatics :: Statics
  showDialog :: bool
  thanks :: bool
  hasVotedForUs :: bool
  addRecommendedBPs :: bool
  error :: string

definition emptyStatics :: Statics where
  "emptyStatics =
     \<lparr>rank = 0, votes = Finite 0, totalVotes = Finite 0, percentage = [], list = []\<rparr>"

text \<open>The initialiser of the field \<^verbatim>\<open>state\<close> of the class.\<close>

definition initial_state :: Vote4UsState where
  "initial_state =
     \<lparr>originalBPSelection = [], modifiedBPSelection = [], roomForMoreBPs = 30,
      logged = None, currentProducerStatics = emptyStatics, showDialog = False,
      thanks = False, hasVotedForUs = True, addRecommendedBPs = True, error = []\<rparr>"

section \<open>Array helpers\<close>

text \<open>\<^verbatim>\<open>findIndex\<close> and \<^verbatim>\<open>indexOf\<close> return \<open>-1\<close> when nothing is found.\<close>

fun findIndex :: "('a \<Rightarrow> bool) \<Rightarrow> 'a list \<Rightarrow> int" where
  "findIndex P [] = - 1"
| "findIndex P (x # xs) =
     (if P x then 0 else (let i = findIndex P xs in if i = - 1 then - 1 else i + 1))"

definition indexOf :: "'a list \<Rightarrow> 'a \<Rightarrow> int" where
  "indexOf xs x = findIndex (\<lambda>y. y = x) xs"

text \<open>\<^verbatim>\<open>s.includes(p)\<close> on strings: \<open>p\<close> occurs in \<open>s\<close>.\<close>

fun includes_str :: "string \<Rightarrow> string \<Rightarrow> bool" where
  "includes_str [] p = (p = [])"
| "includes_str (c # cs) p = (take (length p) (c # cs) = p \<or> includes_str cs p)"

text \<open>
  \<^verbatim>\<open>xs.sort(cmp)\<close> with a comparator. The sort is stable, and an element moves behind
  another only where the comparator is positive (a NaN counts as 0). For a consistent
  comparator every stable sort gives this list; for an inconsistent one ECMAScript
  leaves the order to the implementation, and this is the order of an insertion sort.
\<close>

fun is_positive :: "number \<Rightarrow> bool" where
  "is_positive PosInfinity = True"
| "is_positive (Finite r) = (0 < r)"
| "is_positive _ = False"

fun insert_by :: "('a \<Rightarrow> 'a \<Rightarrow> number) \<Rightarrow> 'a \<Rightarrow> 'a list \<Rightarrow> 'a list" where
  "insert_by cmp x [] = [x]"
| "insert_by cmp x (y # ys) =
     (if is_positive (cmp x y) then y # insert_by cmp x ys else x # y # ys)"

definition sort_by :: "('a \<Rightarrow> 'a \<Rightarrow> number) \<Rightarrow> 'a list \<Rightarrow> 'a list" where
  "sort_by cmp xs = foldr (insert_by cmp) xs []"

section \<open>The state operations\<close>

text \<open>
  Every method mutates \<^verbatim>\<open>this.state\<close> and publishes it; the model passes the state in
  and returns the new one. \<^verbatim>\<open>this.config\<close> is never written and is a parameter.
\<close>

text \<open>\<^verbatim>\<open>resetAll\<close> (the logout of the session kit is outside the model).\<close>

definition resetAll :: "Vote4UsState \<Rightarrow> Vote4UsState" where
  "resetAll st =
     \<lparr>originalBPSelection = [], modifiedBPSelection = [], roomForMoreBPs = 30,
      logged = None, currentProducerStatics = currentProducerStatics st,
      showDialog = False, thanks = False, hasVotedForUs = True,
      addRecommendedBPs = True, error = []\<rparr>"

text \<open>
  \<^verbatim>\<open>dropBP\<close>: the copy of the original selection gets the current producer at the index
  of \<open>bp\<close>. When \<open>bp\<close> is not there \<^verbatim>\<open>indexOf\<close> is \<open>-1\<close>, and \<^verbatim>\<open>producers[-1] = ...\<close>
  sets a property named \<^verbatim>\<open>-1\<close> on the array object: its elements and length stay.
\<close>

definition dropBP :: "Vote4UsConfig \<Rightarrow> string \<Rightarrow> Vote4UsState \<Rightarrow> Vote4UsState" where
  "dropBP cfg bp st =
     (let producers = originalBPSelection st;
          index = indexOf producers bp;
          producers = (if index = - 1 then producers
                       else producers[nat index := currentProducer cfg])
      in st\<lparr>modifiedBPSelection := producers\<rparr>)"

definition openDialog :: "Vote4UsState \<Rightarrow> Vote4UsState" where
  "openDialog st = st\<lparr>showDialog := True\<rparr>"

text \<open>\<^verbatim>\<open>closeDialog\<close>: a non-empty \<^verbatim>\<open>error\<close> string is truthy.\<close>

definition closeDialog :: "Vote4UsState \<Rightarrow> Vote4UsState" where
  "closeDialog st =
     (if thanks st \<or> hasVotedForUs st \<or> error st \<noteq> [] then resetAll st
      else st\<lparr>showDialog := False\<rparr>)"

definition resetModifiedBPSelection :: "Vote4UsState \<Rightarrow> Vote4UsState" where
  "resetModifiedBPSelection st = st\<lparr>modifiedBPSelection := originalBPSelection st\<rparr>"

section \<open>The account query\<close>

text \<open>
  What \<^verbatim>\<open>POST /v1/chain/get_account\<close> can give: the request (or the parsing of its
  body) is rejected, the status is not ok, or the body is an account whose
  \<^verbatim>\<open>voter_info\<close> may be absent and, when present, may lack \<^verbatim>\<open>producers\<close>.
\<close>

datatype voter_info = VoterInfo "string list option"

datatype account_response = FetchRejects | NotOk | AccountInfo "voter_info option"

definition getVotedProducers ::
  "Vote4UsConfig \<Rightarrow> account_response \<Rightarrow> Vote4UsState \<Rightarrow> string list \<times> Vote4UsState" where
  "getVotedProducers cfg response st =
     (case response of
        FetchRejects \<Rightarrow> ([], st)
      | NotOk \<Rightarrow> ([], st)
      | AccountInfo None \<Rightarrow> ([], st)
      | AccountInfo (Some (VoterInfo None)) \<Rightarrow> ([], st)
      | AccountInfo (Some (VoterInfo (Some ps))) \<Rightarrow>
          (let producers = filter (\<lambda>producer. producer \<in> set (list (currentProducerStatics st))) ps
           in (producers,
               st\<lparr>roomForMoreBPs := 30 - int (length producers),
                  hasVotedForUs := (currentProducer cfg \<in> set producers)\<rparr>)))"

definition updateVotedProducers ::
  "Vote4UsConfig \<Rightarrow> account_response \<Rightarrow> Vote4UsState \<Rightarrow> Vote4UsState" where
  "updateVotedProducers cfg response st =
     (let (producers, st) = getVotedProducers cfg response st
      in st\<lparr>originalBPSelection := producers, modifiedBPSelection := producers\<rparr>)"

section \<open>The producer table and the statistics\<close>

text \<open>A row of the table \<^verbatim>\<open>producers\<close>, with the three fields the code reads.\<close>

record ProducerRow =
  owner :: string
  total_votes :: string
  is_active :: int

text \<open>
  What one \<^verbatim>\<open>POST /v1/chain/get_table_rows\<close> can give: the request throws before the
  assignment to \<^verbatim>\<open>producers\<close>, or the body has no \<^verbatim>\<open>rows\<close> (then \<^verbatim>\<open>producers\<close> is
  \<^verbatim>\<open>undefined\<close> and reading its length throws inside the \<^verbatim>\<open>try\<close>), or it has rows.
  The endpoint is a function from the number of the request to its response.
\<close>

datatype table_response = RequestThrows | RowsMissing | Rows "ProducerRow list"

datatype error = TypeError

text \<open>What the loop does besides computing: requests and timers, in order.\<close>

datatype effect = Request | Sleep nat

definition maxAttempts :: nat where
  "maxAttempts = 5"

text \<open>The \<^verbatim>\<open>while\<close> loop of \<^verbatim>\<open>getProducers\<close>; \<open>None\<close> is \<^verbatim>\<open>undefined\<close>.\<close>

function getProducers_loop ::
  "(nat \<Rightarrow> table_response) \<Rightarrow> int \<Rightarrow> nat \<Rightarrow> ProducerRow list option \<Rightarrow> effect list
     \<Rightarrow> ProducerRow list option \<times> effect list" where
  "getProducers_loop endpoint expected attempts producers trace =
     (if attempts < maxAttempts then
        (case endpoint attempts of
           Rows rs \<Rightarrow>
             if expected \<le> int (length rs) then (Some rs, trace @ [Request])
             else getProducers_loop endpoint expected (attempts + 1) (Some rs)
                    (trace @ [Request, Sleep 2000])
         | RowsMissing \<Rightarrow>
             getProducers_loop endpoint expected (attempts + 1) None
               (trace @ [Request, Sleep 2000])
         | RequestThrows \<Rightarrow>
             getProducers_loop endpoint expected (attempts + 1) producers
               (trace @ [Request, Sleep 2000]))
      else (producers, trace))"
  by pat_completeness auto
termination
  by (relation "measure (\<lambda>(endpoint, expected, attempts, producers, trace). maxAttempts - attempts)")
     auto

declare getProducers_loop.simps [simp del]

text \<open>The comparator \<^verbatim>\<open>(a, b) => parseFloat(b.total_votes) - parseFloat(a.total_votes)\<close>.\<close>

definition by_votes_desc :: "ProducerRow \<Rightarrow> ProducerRow \<Rightarrow> number" where
  "by_votes_desc a b = num_sub (parseFloat (total_votes b)) (parseFloat (total_votes a))"

text \<open>\<^verbatim>\<open>getProducers\<close>: \<^verbatim>\<open>undefined.filter\<close> after the loop throws a TypeError.\<close>

definition getProducers ::
  "Vote4UsConfig \<Rightarrow> (nat \<Rightarrow> table_response) \<Rightarrow> (error + ProducerRow list) \<times> effect list" where
  "getProducers cfg endpoint =
     (let (producers, trace) = getProducers_loop endpoint (expectedBPs cfg) 0 (Some []) []
      in case producers of
           None \<Rightarrow> (Inl TypeError, trace)
         | Some rows \<Rightarrow>
             (let activeProducers = filter (\<lambda>producer. is_active producer = 1) rows
              in (Inr (sort_by by_votes_desc activeProducers), trace)))"

text \<open>
  The body of \<^verbatim>\<open>startFetchingStatics\<close> after the producers have arrived: the returned
  statistics and the state.
\<close>

definition computeStatics ::
  "(rat \<Rightarrow> string) \<Rightarrow> Vote4UsConfig \<Rightarrow> ProducerRow list \<Rightarrow> Vote4UsState
     \<Rightarrow> Statics \<times> Vote4UsState" where
  "computeStatics big cfg producers st =
     (if length producers = 0 then
        (\<lparr>rank = 0, votes = Finite 0, totalVotes = Finite 0, percentage = [], list = []\<rparr>, st)
      else
        (let totalVotes =
               Math_round (foldl (\<lambda>sum producer. num_add sum (parseFloat (total_votes producer)))
                            (Finite 0) producers)
         in case find (\<lambda>producer. owner producer = currentProducer cfg) producers of
              None \<Rightarrow>
                (\<lparr>rank = 0, votes = Finite 0, totalVotes = Finite 0, percentage = [], list = []\<rparr>,
                 st)
            | Some producerData \<Rightarrow>
                (let rank = findIndex (\<lambda>producer. owner producer = currentProducer cfg) producers + 1;
                     percentageOfVotes =
                       num_mul (num_div (parseFloat (total_votes producerData)) totalVotes)
                         (Finite 100);
                     votes = Math_round (num_div (parseFloat (total_votes producerData))
                                           (Finite 10000));
                     percentage = toFixed2 big percentageOfVotes @ ''%'';
                     list = map owner producers;
                     statics = \<lparr>rank = rank, votes = votes, totalVotes = totalVotes,
                                percentage = percentage, list = list\<rparr>
                 in (statics, st\<lparr>currentProducerStatics := statics\<rparr>))))"

text \<open>\<^verbatim>\<open>startFetchingStatics\<close>: the result (or the exception), the state and the effects.\<close>

definition startFetchingStatics ::
  "(rat \<Rightarrow> string) \<Rightarrow> Vote4UsConfig \<Rightarrow> (nat \<Rightarrow> table_response) \<Rightarrow> Vote4UsState
     \<Rightarrow> (error + Statics) \<times> Vote4UsState \<times> effect list" where
  "startFetchingStatics big cfg endpoint st =
     (let st = st\<lparr>currentProducerStatics := emptyStatics\<rparr>;
          (fetched, trace) = getProducers cfg endpoint
      in case fetched of
           Inl e \<Rightarrow> (Inl e, st, trace)
         | Inr producers \<Rightarrow>
             (let (statics, st) = computeStatics big cfg producers st
              in (Inr statics, st, trace)))"

section \<open>Casting the vote\<close>

text \<open>
  In \<^verbatim>\<open>voteForUs\<close> the variable \<^verbatim>\<open>producers\<close> first holds a reference to an array of the
  state (\<^verbatim>\<open>originalBPSelection\<close>, or \<^verbatim>\<open>modifiedBPSelection\<close> when there is no room), and
  holds a new array only after a \<^verbatim>\<open>concat\<close>. \<^verbatim>\<open>push\<close> and \<^verbatim>\<open>sort\<close> work in place, on
  whatever array the variable refers to, so the variable is modelled as a reference
  and its two in-place operations write through to the state. The two fields never
  refer to the same array: every assignment to \<^verbatim>\<open>modifiedBPSelection\<close> stores a new
  array.
\<close>

datatype array_ref = OriginalRef | ModifiedRef | NewArray "string list"

fun deref :: "Vote4UsState \<Rightarrow> array_ref \<Rightarrow> string list" where
  "deref st OriginalRef = originalBPSelection st"
| "deref st ModifiedRef = modifiedBPSelection st"
| "deref st (NewArray xs) = xs"

text \<open>\<^verbatim>\<open>producers.push(x)\<close>\<close>

fun push :: "array_ref \<Rightarrow> string \<Rightarrow> Vote4UsState \<Rightarrow> array_ref \<times> Vote4UsState" where
  "push OriginalRef x st = (OriginalRef, st\<lparr>originalBPSelection := originalBPSelection st @ [x]\<rparr>)"
| "push ModifiedRef x st = (ModifiedRef, st\<lparr>modifiedBPSelection := modifiedBPSelection st @ [x]\<rparr>)"
| "push (NewArray xs) x st = (NewArray (xs @ [x]), st)"

text \<open>\<^verbatim>\<open>producers.sort()\<close>: without a comparator, ascending in the order of strings.\<close>

fun sort_in_place :: "array_ref \<Rightarrow> Vote4UsState \<Rightarrow> array_ref \<times> Vote4UsState" where
  "sort_in_place OriginalRef st =
     (OriginalRef, st\<lparr>originalBPSelection := sort (originalBPSelection st)\<rparr>)"
| "sort_in_place ModifiedRef st =
     (ModifiedRef, st\<lparr>modifiedBPSelection := sort (modifiedBPSelection st)\<rparr>)"
| "sort_in_place (NewArray xs) st = (NewArray (sort xs), st)"

text \<open>
  The array the vote starts from (\<^verbatim>\<open>let producers = ...\<close> and the \<^verbatim>\<open>if\<close> after it): the
  modified selection when there is no room, otherwise the original selection, to which
  the current producer is pushed when it is not there.
\<close>

definition voteForUs_select :: "Vote4UsConfig \<Rightarrow> Vote4UsState \<Rightarrow> array_ref \<times> Vote4UsState" where
  "voteForUs_select cfg st =
     (if roomForMoreBPs st = 0 then (ModifiedRef, st)
      else if currentProducer cfg \<notin> set (originalBPSelection st)
        then push OriginalRef (currentProducer cfg) st
        else (OriginalRef, st))"

text \<open>
  The block \<^verbatim>\<open>if (this.state.addRecommendedBPs && producers.length < 30)\<close>.
  \<^verbatim>\<open>xs.sort(() => Math.random() - 0.5)\<close> ignores the elements it compares; what order
  comes out depends on the random draws and on the engine, so the outcomes of the two
  calls are the parameters \<open>shuffle1\<close> and \<open>shuffle2\<close>. \<^verbatim>\<open>concat\<close> makes a new array.
\<close>

definition voteForUs_fill ::
  "(string list \<Rightarrow> string list) \<Rightarrow> (string list \<Rightarrow> string list) \<Rightarrow> Vote4UsConfig
     \<Rightarrow> Vote4UsState \<Rightarrow> array_ref \<Rightarrow> array_ref" where
  "voteForUs_fill shuffle1 shuffle2 cfg st producers =
     (if addRecommendedBPs st \<and> length (deref st producers) < 30 then
        (let recommendedBPs =
               shuffle1 (filter (\<lambda>bp. bp \<notin> set (deref st producers)
                                     \<and> bp \<in> set (list (currentProducerStatics st)))
                           (suggestedBPs cfg));
             remainingVotes = 30 - length (deref st producers);
             newProducers = take remainingVotes recommendedBPs;
             producers = NewArray (deref st producers @ newProducers)
         in if length (deref st producers) < 30 then
              (let notAdded =
                     shuffle2 (filter (\<lambda>bp. bp \<notin> set (deref st producers)
                                           \<and> bp \<notin> set (notSuggestedBPs cfg))
                                 (list (currentProducerStatics st)));
                   remainingVotes = 30 - length (deref st producers);
                   newProducers = take remainingVotes notAdded
               in NewArray (deref st producers @ newProducers))
            else producers)
      else producers)"

text \<open>
  The part of \<^verbatim>\<open>voteForUs\<close> that builds the array handed to \<^verbatim>\<open>transact\<close>, from
  \<^verbatim>\<open>let producers = ...\<close> to \<^verbatim>\<open>producers.sort()\<close>: the state after the in-place
  operations, and the array handed over.
\<close>

definition voteForUs_reconcile ::
  "(string list \<Rightarrow> string list) \<Rightarrow> (string list \<Rightarrow> string list) \<Rightarrow> Vote4UsConfig
     \<Rightarrow> Vote4UsState \<Rightarrow> Vote4UsState \<times> string list" where
  "voteForUs_reconcile shuffle1 shuffle2 cfg st =
     (let (producers, st) = voteForUs_select cfg st;
          producers = voteForUs_fill shuffle1 shuffle2 cfg st producers;
          (producers, st) = sort_in_place producers st
      in (st, deref st producers))"

text \<open>
  The outcome of \<^verbatim>\<open>transact\<close>: it resolves, or it throws an error with a message.
\<close>

datatype tx_result = TxOk | TxError string

text \<open>
  \<^verbatim>\<open>voteForUs\<close>. \<open>transact\<close> is the wallet's answer to the array handed over and
  \<open>account\<close> the answer to the account query made after a failure. After a success
  \<^verbatim>\<open>startFetchingStatics()\<close> is called and not awaited: it runs up to its first \<^verbatim>\<open>await\<close>,
  which resets the statistics, and finishes later. The result is the state and the
  array handed to \<^verbatim>\<open>transact\<close> (\<open>None\<close> when nobody is logged in).
\<close>

definition voteForUs ::
  "(string list \<Rightarrow> string list) \<Rightarrow> (string list \<Rightarrow> string list)
     \<Rightarrow> (string list \<Rightarrow> tx_result) \<Rightarrow> account_response \<Rightarrow> Vote4UsConfig
     \<Rightarrow> Vote4UsState \<Rightarrow> Vote4UsState \<times> string list option" where
  "voteForUs shuffle1 shuffle2 transact account cfg st =
     (let st = st\<lparr>error := []\<rparr>
      in case logged st of
           None \<Rightarrow> (st, None)
         | Some user \<Rightarrow>
             (let (st, producers) = voteForUs_reconcile shuffle1 shuffle2 cfg st
              in case transact producers of
                   TxOk \<Rightarrow>
                     (st\<lparr>thanks := True, currentProducerStatics := emptyStatics\<rparr>, Some producers)
                 | TxError message \<Rightarrow>
                     (let st = updateVotedProducers cfg account st
                      in if includes_str message ''cancelled'' then (st, Some producers)
                         else (st\<lparr>error := (if message \<noteq> [] then message
                                             else ''An error occurred while casting your vote.'')\<rparr>,
                               Some producers))))"

section \<open>Notions used in the statements\<close>

text \<open>A sequence of \<^verbatim>\<open>dropBP\<close> calls, one for each name, in order.\<close>

definition dropBPs :: "Vote4UsConfig \<Rightarrow> string list \<Rightarrow> Vote4UsState \<Rightarrow> Vote4UsState" where
  "dropBPs cfg bps st = foldl (\<lambda>s bp. dropBP cfg bp s) st bps"

text \<open>The positions at which two lists of the same length differ.\<close>

definition differing_positions :: "'a list \<Rightarrow> 'a list \<Rightarrow> nat list" where
  "differing_positions xs ys = filter (\<lambda>i. xs ! i \<noteq> ys ! i) [0..<length xs]"

text \<open>The contents of the array \<^verbatim>\<open>producers\<close> of \<^verbatim>\<open>voteForUs\<close> before the recommendations
  are added.\<close>

definition selection :: "Vote4UsConfig \<Rightarrow> Vote4UsState \<Rightarrow> string list" where
  "selection cfg st = (let (producers, st') = voteForUs_select cfg st in deref st' producers)"

section \<open>Sample inputs\<close>

text \<open>The inputs of the closed examples given with the statements below.\<close>

definition bob :: LoggedAccount where
  "bob = \<lparr>name = ''bob'', permission = ''active''\<rparr>"

text \<open>A printer of large numbers for the examples; none of them prints a value of
  \<open>10^21\<close> or more.\<close>

definition sample_printer :: "rat \<Rightarrow> string" where
  "sample_printer x = ''1e+21''"

text \<open>Statistics with eight active producers, the current producer \<^verbatim>\<open>x\<close> last.\<close>

definition sample_statics :: Statics where
  "sample_statics =
     \<lparr>rank = 8, votes = Finite 12, totalVotes = Finite 1000000, percentage = ''12.00%'',
      list = [''b'', ''q'', ''r'', ''s'', ''t'', ''n'', ''u'', ''x'']\<rparr>"

definition cfg_x :: Vote4UsConfig where
  "cfg_x = \<lparr>currentProducer = ''x'', suggestedBPs = [''s'', ''t''],
            notSuggestedBPs = [''n''], expectedBPs = 8\<rparr>"

text \<open>The same configuration with a suggestion listed twice.\<close>

definition cfg_twice :: Vote4UsConfig where
  "cfg_twice = \<lparr>currentProducer = ''x'', suggestedBPs = [''s'', ''s''],
                notSuggestedBPs = [''n''], expectedBPs = 8\<rparr>"

text \<open>A voter who is logged in and has voted for \<^verbatim>\<open>b\<close>, \<^verbatim>\<open>q\<close> and \<^verbatim>\<open>r\<close>.\<close>

definition st_bqr :: Vote4UsState where
  "st_bqr =
     \<lparr>originalBPSelection = [''b'', ''q'', ''r''], modifiedBPSelection = [''b'', ''q'', ''r''],
      roomForMoreBPs = 27, logged = Some bob, currentProducerStatics = sample_statics,
      showDialog = True, thanks = False, hasVotedForUs = False, addRecommendedBPs = True,
      error = []\<rparr>"

text \<open>A voter who has just logged in, before the account query.\<close>

definition st_fresh :: Vote4UsState where
  "st_fresh = initial_state\<lparr>logged := Some bob, currentProducerStatics := sample_statics\<rparr>"

text \<open>A wallet that signs whatever it is handed.\<close>

definition wallet_accepts :: "string list \<Rightarrow> tx_result" where
  "wallet_accepts producers = TxOk"

text \<open>Twenty-eight producer names, and statistics in which they, \<^verbatim>\<open>s\<close>, \<^verbatim>\<open>t\<close> and \<^verbatim>\<open>x\<close> are
  active.\<close>

definition names28 :: "string list" where
  "names28 =
     [''bpaa'', ''bpab'', ''bpac'', ''bpad'', ''bpae'', ''bpaf'', ''bpag'',
      ''bpah'', ''bpai'', ''bpaj'', ''bpak'', ''bpal'', ''bpam'', ''bpan'',
      ''bpba'', ''bpbb'', ''bpbc'', ''bpbd'', ''bpbe'', ''bpbf'', ''bpbg'',
      ''bpbh'', ''bpbi'', ''bpbj'', ''bpbk'', ''bpbl'', ''bpbm'', ''bpbn'']"

definition statics31 :: Statics where
  "statics31 =
     \<lparr>rank = 31, votes = Finite 12, totalVotes = Finite 1000000, percentage = ''12.00%'',
      list = names28 @ [''s'', ''t'', ''x'']\<rparr>"

text \<open>A voter with 29 votes, \<^verbatim>\<open>x\<close> not among them.\<close>

definition st29 :: Vote4UsState where
  "st29 =
     \<lparr>originalBPSelection = names28 @ [''t''], modifiedBPSelection = names28 @ [''t''],
      roomForMoreBPs = 1, logged = Some bob, currentProducerStatics = statics31,
      showDialog = True, thanks = False, hasVotedForUs = False, addRecommendedBPs = True,
      error = []\<rparr>"

text \<open>A voter with 29 votes, \<^verbatim>\<open>x\<close> among them.\<close>

definition st29_voted :: Vote4UsState where
  "st29_voted =
     \<lparr>originalBPSelection = names28 @ [''x''], modifiedBPSelection = names28 @ [''x''],
      roomForMoreBPs = 1, logged = Some bob, currentProducerStatics = statics31,
      showDialog = True, thanks = False, hasVotedForUs = True, addRecommendedBPs = True,
      error = []\<rparr>"

text \<open>A voter for whom the account query listed 31 active producers, \<^verbatim>\<open>x\<close> not among
  them: \<^verbatim>\<open>getVotedProducers\<close> then leaves \<^verbatim>\<open>roomForMoreBPs\<close> at \<open>30 - 31\<close>.\<close>

definition statics32 :: Statics where
  "statics32 =
     \<lparr>rank = 32, votes = Finite 12, totalVotes = Finite 1000000, percentage = ''12.00%'',
      list = names28 @ [''s'', ''t'', ''u'', ''x'']\<rparr>"

definition st31 :: Vote4UsState where
  "st31 =
     \<lparr>originalBPSelection = names28 @ [''s'', ''t'', ''u''],
      modifiedBPSelection = names28 @ [''s'', ''t'', ''u''],
      roomForMoreBPs = - 1, logged = Some bob, currentProducerStatics = statics32,
      showDialog = True, thanks = False, hasVotedForUs = False, addRecommendedBPs = True,
      error = []\<rparr>"

text \<open>The producer table of the first scenario, and the same with the weight \<^verbatim>\<open>0\<close> and
  with the weight \<^verbatim>\<open>0.3\<close> for a single producer \<^verbatim>\<open>A\<close>.\<close>

definition cfg_A :: Vote4UsConfig where
  "cfg_A = \<lparr>currentProducer = ''A'', suggestedBPs = [], notSuggestedBPs = [],
            expectedBPs = 3\<rparr>"

definition rows_ABC :: "ProducerRow list" where
  "rows_ABC =
     [\<lparr>owner = ''A'', total_votes = ''1000'', is_active = 1\<rparr>,
      \<lparr>owner = ''B'', total_votes = ''2000'', is_active = 1\<rparr>,
      \<lparr>owner = ''C'', total_votes = ''500'', is_active = 0\<rparr>]"

definition endpoint_ABC :: "nat \<Rightarrow> table_response" where
  "endpoint_ABC n = Rows rows_ABC"

definition rows_A0 :: "ProducerRow list" where
  "rows_A0 = [\<lparr>owner = ''A'', total_votes = ''0'', is_active = 1\<rparr>]"

definition endpoint_A0 :: "nat \<Rightarrow> table_response" where
  "endpoint_A0 n = Rows rows_A0"

definition rows_A03 :: "ProducerRow list" where
  "rows_A03 = [\<lparr>owner = ''A'', total_votes = ''0.3'', is_active = 1\<rparr>]"

definition rows_B :: "ProducerRow list" where
  "rows_B = [\<lparr>owner = ''B'', total_votes = ''2000'', is_active = 1\<rparr>]"

definition endpoint_B :: "nat \<Rightarrow> table_response" where
  "endpoint_B n = Rows rows_B"

text \<open>Fifty active producers, an endpoint that returns them at every request, and a
  configuration that expects a hundred.\<close>

definition rows50 :: "ProducerRow list" where
  "rows50 =
     map (\<lambda>i. \<lparr>owner = ''bp'' @ nat_digits i, total_votes = nat_digits (1000 + i),
                is_active = 1\<rparr>) [0..<50]"

definition endpoint50 :: "nat \<Rightarrow> table_response" where
  "endpoint50 n = Rows rows50"

definition cfg100 :: Vote4UsConfig where
  "cfg100 = \<lparr>currentProducer = ''bp7'', suggestedBPs = [], notSuggestedBPs = [],
             expectedBPs = 100\<rparr>"

section \<open>Lemmas\<close>

text \<open>Evaluation of the number model on numerals.\<close>

lemma floor_rat_numeral_div [simp]:
  "\<lfloor>numeral a / (numeral b :: rat)\<rfloor> = numeral a div numeral b"
  by (metis floor_divide_of_int_eq of_int_numeral)

lemma floor_rat_one_div [simp]:
  "\<lfloor>1 / (numeral b :: rat)\<rfloor> = 1 div numeral b"
  by (metis floor_divide_of_int_eq of_int_1 of_int_numeral)

lemmas num_eval =
  fl_def binary64_def floor_log2_def halvings.simps doublings.simps pow2_def
  round_half_even_def Let_def num_add_def num_sub_def num_mul_def num_div_def
  infinity_def zero_def

lemmas parse_eval =
  parseFloat_def unsigned_literal_def exponent_part_def is_space_def is_digit_def
  digits_val_def pow10_def

lemmas print_eval = fixed2_def nat_digits.simps digit_char_def

lemma findIndex_range: "findIndex P xs = - 1 \<or> (0 \<le> findIndex P xs \<and> findIndex P xs < int (length xs))"
  by (induction xs) (auto simp: Let_def)

lemma findIndex_absent: "findIndex P xs = - 1 \<longleftrightarrow> (\<forall>x \<in> set xs. \<not> P x)"
proof (induction xs)
  case Nil
  then show ?case by simp
next
  case (Cons x xs)
  have "findIndex P xs \<noteq> - 2"
    using findIndex_range [of P xs] by auto
  with Cons show ?case by (auto simp: Let_def)
qed

lemma indexOf_member: "indexOf xs x \<noteq> - 1 \<longleftrightarrow> x \<in> set xs"
  by (auto simp: indexOf_def findIndex_absent)

lemma dropBP_original: "originalBPSelection (dropBP cfg bp st) = originalBPSelection st"
  by (simp add: dropBP_def Let_def)

lemma dropBP_depends_on_original:
  "originalBPSelection s = originalBPSelection st \<Longrightarrow>
   modifiedBPSelection (dropBP cfg bp s) = modifiedBPSelection (dropBP cfg bp st)"
  by (simp add: dropBP_def Let_def)

lemma dropBPs_original: "originalBPSelection (dropBPs cfg bps st) = originalBPSelection st"
  unfolding dropBPs_def
  by (induction bps arbitrary: st) (simp_all add: dropBP_original)

lemma dropBPs_snoc: "dropBPs cfg (bps @ [bp]) st = dropBP cfg bp (dropBPs cfg bps st)"
  by (simp add: dropBPs_def)

lemma dropBPs_modified:
  "bps \<noteq> [] \<Longrightarrow>
   modifiedBPSelection (dropBPs cfg bps st) = modifiedBPSelection (dropBP cfg (last bps) st)"
proof (induction bps rule: rev_induct)
  case Nil
  then show ?case by simp
next
  case (snoc bp bps)
  have "originalBPSelection (dropBPs cfg bps st) = originalBPSelection st"
    by (rule dropBPs_original)
  then have "modifiedBPSelection (dropBP cfg bp (dropBPs cfg bps st))
      = modifiedBPSelection (dropBP cfg bp st)"
    by (rule dropBP_depends_on_original)
  then show ?case
    by (simp add: dropBPs_snoc)
qed

lemma differing_update:
  "set (differing_positions (xs[i := v]) xs) \<subseteq> {i} \<and> length (differing_positions (xs[i := v]) xs) \<le> 1"
proof -
  let ?d = "differing_positions (xs[i := v]) xs"
  have "j = i" if "xs[i := v] ! j \<noteq> xs ! j" for j
    using that by (cases "j = i") simp_all
  then have sub: "set ?d \<subseteq> {i}"
    by (auto simp: differing_positions_def)
  have "distinct ?d"
    by (simp add: differing_positions_def)
  then have "length ?d = card (set ?d)"
    by (simp add: distinct_card)
  also have "\<dots> \<le> card {i}"
    using sub by (intro card_mono) auto
  finally show ?thesis using sub by simp
qed

lemma differing_same: "differing_positions xs xs = []"
  by (simp add: differing_positions_def)

lemma selection_eq:
  "selection cfg st =
     (if roomForMoreBPs st = 0 then modifiedBPSelection st
      else if currentProducer cfg \<in> set (originalBPSelection st) then originalBPSelection st
      else originalBPSelection st @ [currentProducer cfg])"
  by (simp add: selection_def voteForUs_select_def)

lemma sort_in_place_deref:
  "sort_in_place r st = (r', st') \<Longrightarrow> deref st' r' = sort (deref st r)"
  by (cases r) auto

lemma reconcile_out:
  "voteForUs_select cfg st = (r, st1) \<Longrightarrow>
   snd (voteForUs_reconcile shuffle1 shuffle2 cfg st)
     = sort (deref st1 (voteForUs_fill shuffle1 shuffle2 cfg st1 r))"
  by (auto simp: voteForUs_reconcile_def split: prod.splits dest: sort_in_place_deref)

lemma select_deref:
  "voteForUs_select cfg st = (r, st1) \<Longrightarrow> deref st1 r = selection cfg st"
  by (simp add: selection_def)

lemma shuffle_distinct:
  assumes "mset (shuffle xs) = mset xs" and "distinct xs"
  shows "distinct (shuffle xs)"
  using assms mset_eq_imp_distinct_iff by blast

lemma shuffle_set:
  assumes "mset (shuffle xs) = mset xs"
  shows "set (shuffle xs) = set xs"
  using assms by (rule mset_eq_setD)

lemma append_take_distinct:
  assumes "distinct xs" and "distinct ys" and "set xs \<inter> set ys = {}"
  shows "distinct (xs @ take n ys)"
  using assms by (auto dest: in_set_takeD)

lemma append_take_length:
  assumes "length xs \<le> 30"
  shows "length (xs @ take (30 - length xs) ys) \<le> 30"
  using assms by simp

lemma fill_unfold:
  "deref st (voteForUs_fill shuffle1 shuffle2 cfg st r) =
     (let B = deref st r;
          P1 = B @ take (30 - length B)
                 (shuffle1 (filter (\<lambda>bp. bp \<notin> set B \<and> bp \<in> set (list (currentProducerStatics st)))
                              (suggestedBPs cfg)));
          P2 = P1 @ take (30 - length P1)
                 (shuffle2 (filter (\<lambda>bp. bp \<notin> set P1 \<and> bp \<notin> set (notSuggestedBPs cfg))
                              (list (currentProducerStatics st))))
      in if addRecommendedBPs st \<and> length B < 30
         then (if length P1 < 30 then P2 else P1) else B)"
  unfolding voteForUs_fill_def Let_def deref.simps
  by (simp only: if_distrib [of "deref st"] deref.simps split: if_splits)

lemma fill_bounded:
  assumes len: "length (deref st r) \<le> 30"
  shows "length (deref st (voteForUs_fill shuffle1 shuffle2 cfg st r)) \<le> 30"
proof -
  define B where "B = deref st r"
  define rec where "rec = shuffle1 (filter (\<lambda>bp. bp \<notin> set B \<and> bp \<in> set (list (currentProducerStatics st)))
                         (suggestedBPs cfg))"
  define P1 where "P1 = B @ take (30 - length B) rec"
  define na where "na = shuffle2 (filter (\<lambda>bp. bp \<notin> set P1 \<and> bp \<notin> set (notSuggestedBPs cfg))
                        (list (currentProducerStatics st)))"
  define P2 where "P2 = P1 @ take (30 - length P1) na"
  have B_l: "length B \<le> 30"
    using len by (simp add: B_def)
  have P1_l: "length P1 \<le> 30"
    unfolding P1_def using B_l by (rule append_take_length)
  have P2_l: "length P2 \<le> 30"
    unfolding P2_def using P1_l by (rule append_take_length)
  have "deref st (voteForUs_fill shuffle1 shuffle2 cfg st r) = B
        \<or> deref st (voteForUs_fill shuffle1 shuffle2 cfg st r) = P1
        \<or> deref st (voteForUs_fill shuffle1 shuffle2 cfg st r) = P2"
    unfolding fill_unfold Let_def P2_def na_def P1_def rec_def B_def
    by (simp only: split: if_splits) blast
  then show ?thesis
    using B_l P1_l P2_l by auto
qed

lemma fill_distinct:
  assumes perm1: "\<And>xs. mset (shuffle1 xs) = mset xs"
    and perm2: "\<And>xs. mset (shuffle2 xs) = mset xs"
    and sug: "distinct (suggestedBPs cfg)"
    and act: "distinct (list (currentProducerStatics st))"
    and dis: "distinct (deref st r)"
  shows "distinct (deref st (voteForUs_fill shuffle1 shuffle2 cfg st r))"
proof -
  define B where "B = deref st r"
  define rec where "rec = shuffle1 (filter (\<lambda>bp. bp \<notin> set B \<and> bp \<in> set (list (currentProducerStatics st)))
                         (suggestedBPs cfg))"
  define P1 where "P1 = B @ take (30 - length B) rec"
  define na where "na = shuffle2 (filter (\<lambda>bp. bp \<notin> set P1 \<and> bp \<notin> set (notSuggestedBPs cfg))
                        (list (currentProducerStatics st)))"
  define P2 where "P2 = P1 @ take (30 - length P1) na"
  have B_d: "distinct B"
    using dis by (simp add: B_def)
  have rec_d: "distinct rec"
    unfolding rec_def using sug by (intro shuffle_distinct [OF perm1]) simp
  have "set rec = set (filter (\<lambda>bp. bp \<notin> set B \<and> bp \<in> set (list (currentProducerStatics st)))
                         (suggestedBPs cfg))"
    unfolding rec_def by (rule shuffle_set [OF perm1])
  then have "set rec \<subseteq> - set B"
    by auto
  then have rec_s: "set B \<inter> set rec = {}"
    by blast
  have P1_d: "distinct P1"
    unfolding P1_def using B_d rec_d rec_s by (rule append_take_distinct)
  have na_d: "distinct na"
    unfolding na_def using act by (intro shuffle_distinct [OF perm2]) simp
  have "set na = set (filter (\<lambda>bp. bp \<notin> set P1 \<and> bp \<notin> set (notSuggestedBPs cfg))
                        (list (currentProducerStatics st)))"
    unfolding na_def by (rule shuffle_set [OF perm2])
  then have "set na \<subseteq> - set P1"
    by auto
  then have na_s: "set P1 \<inter> set na = {}"
    by blast
  have P2_d: "distinct P2"
    unfolding P2_def using P1_d na_d na_s by (rule append_take_distinct)
  have "deref st (voteForUs_fill shuffle1 shuffle2 cfg st r) = B
        \<or> deref st (voteForUs_fill shuffle1 shuffle2 cfg st r) = P1
        \<or> deref st (voteForUs_fill shuffle1 shuffle2 cfg st r) = P2"
    unfolding fill_unfold Let_def P2_def na_def P1_def rec_def B_def
    by (simp only: split: if_splits) blast
  then show ?thesis
    using B_d P1_d P2_d by auto
qed

text \<open>The first scenario, step by step.\<close>

lemma loop_ABC: "getProducers_loop endpoint_ABC 3 0 (Some []) [] = (Some rows_ABC, [Request])"
  by (simp add: getProducers_loop.simps maxAttempts_def endpoint_ABC_def rows_ABC_def)

lemma p1000: "parseFloat ''1000'' = Finite 1000"
  by (simp add: parse_eval num_eval)

lemma p2000: "parseFloat ''2000'' = Finite 2000"
  by (simp add: parse_eval num_eval)

lemma getProducers_ABC:
  "getProducers cfg_A endpoint_ABC
     = (Inr [\<lparr>owner = ''B'', total_votes = ''2000'', is_active = 1\<rparr>,
            \<lparr>owner = ''A'', total_votes = ''1000'', is_active = 1\<rparr>], [Request])"
  by (simp add: getProducers_def cfg_A_def loop_ABC rows_ABC_def sort_by_def by_votes_desc_def
      p1000 p2000 num_eval)

lemma cfg_A_target: "currentProducer cfg_A = ''A''"
  by (simp add: cfg_A_def)

text \<open>The degraded result, the division by a zero total, and the retry loop on the
  sample endpoints.\<close>

lemma computeStatics_degraded:
  assumes "producers = [] \<or> currentProducer cfg \<notin> owner ` set producers"
  shows "computeStatics big cfg producers st
           = (\<lparr>rank = 0, votes = Finite 0, totalVotes = Finite 0, percentage = [], list = []\<rparr>, st)"
proof (cases "producers = []")
  case True
  then show ?thesis by (simp add: computeStatics_def)
next
  case False
  with assms have "find (\<lambda>producer. owner producer = currentProducer cfg) producers = None"
    by (force simp: find_None_iff)
  then show ?thesis
    using False by (simp add: computeStatics_def Let_def)
qed

lemma loop_B:
  "getProducers_loop endpoint_B 3 0 (Some []) []
     = (Some rows_B, [Request, Sleep 2000, Request, Sleep 2000, Request, Sleep 2000,
                      Request, Sleep 2000, Request, Sleep 2000])"
  by (simp add: getProducers_loop.simps maxAttempts_def endpoint_B_def rows_B_def)

lemma getProducers_B: "fst (getProducers cfg_A endpoint_B) = Inr rows_B"
  by (simp add: getProducers_def cfg_A_def loop_B) (simp add: rows_B_def sort_by_def)

lemma p03: "parseFloat ''0.3'' = Finite (5404319552844595 / 18014398509481984)"
  by (simp add: parse_eval num_eval)

lemma p0: "parseFloat ''0'' = Finite 0"
  by (simp add: parse_eval num_eval)

lemma loop_A0:
  "getProducers_loop endpoint_A0 3 0 (Some []) []
     = (Some rows_A0, [Request, Sleep 2000, Request, Sleep 2000, Request, Sleep 2000,
                       Request, Sleep 2000, Request, Sleep 2000])"
  by (simp add: getProducers_loop.simps maxAttempts_def endpoint_A0_def rows_A0_def)

lemma getProducers_A0: "fst (getProducers cfg_A endpoint_A0) = Inr rows_A0"
  by (simp add: getProducers_def cfg_A_def loop_A0) (simp add: rows_A0_def sort_by_def)

lemma length_insert_by: "length (insert_by cmp x xs) = Suc (length xs)"
  by (induction xs) simp_all

lemma length_sort_by: "length (sort_by cmp xs) = length xs"
  unfolding sort_by_def by (induction xs) (simp_all add: length_insert_by)

lemma length_rows50: "length rows50 = 50"
  by (simp add: rows50_def)

lemma active_rows50: "filter (\<lambda>producer. is_active producer = 1) rows50 = rows50"
  by (simp add: rows50_def filter_map comp_def)

lemma loop50:
  "getProducers_loop endpoint50 100 0 (Some []) []
     = (Some rows50, [Request, Sleep 2000, Request, Sleep 2000, Request, Sleep 2000,
                      Request, Sleep 2000, Request, Sleep 2000])"
  by (simp add: getProducers_loop.simps maxAttempts_def endpoint50_def length_rows50)

section \<open>The claims\<close>

text \<open>
  C1, as amended. The array handed to \<^verbatim>\<open>transact\<close> is sorted ascending, whatever the
  state. It has at most 30 entries whenever the array the vote starts from (the modified
  selection when \<^verbatim>\<open>roomForMoreBPs\<close> is 0, otherwise the original selection with the
  current producer pushed when absent) has at most 30 entries. It has no duplicates
  whenever that array, \<^verbatim>\<open>suggestedBPs\<close> and the list of active producers have none, the
  two random sorts returning permutations of what they are given.
\<close>

theorem reconcile_sorted_bounded_distinct:
  "sorted (snd (voteForUs_reconcile shuffle1 shuffle2 cfg st))
   \<and> (length (selection cfg st) \<le> 30
        \<longrightarrow> length (snd (voteForUs_reconcile shuffle1 shuffle2 cfg st)) \<le> 30)
   \<and> ((\<forall>xs. mset (shuffle1 xs) = mset xs) \<and> (\<forall>xs. mset (shuffle2 xs) = mset xs)
        \<and> distinct (suggestedBPs cfg) \<and> distinct (list (currentProducerStatics st))
        \<and> distinct (selection cfg st)
        \<longrightarrow> distinct (snd (voteForUs_reconcile shuffle1 shuffle2 cfg st)))"
proof -
  obtain r st1 where sel: "voteForUs_select cfg st = (r, st1)"
    by (cases "voteForUs_select cfg st")
  have stat: "currentProducerStatics st1 = currentProducerStatics st"
    using sel by (auto simp: voteForUs_select_def split: if_splits)
  have B: "deref st1 r = selection cfg st"
    using sel by (rule select_deref)
  have out: "snd (voteForUs_reconcile shuffle1 shuffle2 cfg st)
               = sort (deref st1 (voteForUs_fill shuffle1 shuffle2 cfg st1 r))"
    using sel by (rule reconcile_out)
  have s: "sorted (snd (voteForUs_reconcile shuffle1 shuffle2 cfg st))"
    by (simp add: out)
  have l: "length (snd (voteForUs_reconcile shuffle1 shuffle2 cfg st)) \<le> 30"
    if "length (selection cfg st) \<le> 30"
    using fill_bounded [of st1 r shuffle1 shuffle2 cfg] that by (simp add: out B)
  have d: "distinct (snd (voteForUs_reconcile shuffle1 shuffle2 cfg st))"
    if "\<forall>xs. mset (shuffle1 xs) = mset xs" and "\<forall>xs. mset (shuffle2 xs) = mset xs"
      and "distinct (suggestedBPs cfg)" and "distinct (list (currentProducerStatics st))"
      and "distinct (selection cfg st)"
  proof -
    have "distinct (deref st1 (voteForUs_fill shuffle1 shuffle2 cfg st1 r))"
      using that by (intro fill_distinct) (simp_all add: stat B)
    then show ?thesis
      by (simp add: out)
  qed
  show ?thesis
    using s l d by blast
qed

text \<open>
  A voter with three votes and room for 27 more: every premise holds, and the array
  handed over is the seven names in order.
\<close>

theorem reconcile_witness:
  "(\<forall>xs. mset (id xs) = mset xs)
   \<and> distinct (suggestedBPs cfg_x)
   \<and> distinct (list (currentProducerStatics st_bqr))
   \<and> distinct (selection cfg_x st_bqr) \<and> length (selection cfg_x st_bqr) \<le> 30
   \<and> snd (voteForUs_reconcile id id cfg_x st_bqr) = [''b'', ''q'', ''r'', ''s'', ''t'', ''u'', ''x'']
   \<and> sorted (snd (voteForUs_reconcile id id cfg_x st_bqr))
   \<and> distinct (snd (voteForUs_reconcile id id cfg_x st_bqr))
   \<and> length (snd (voteForUs_reconcile id id cfg_x st_bqr)) \<le> 30"
proof -
  have h0: "\<forall>xs. mset (id xs) = mset xs"
    by simp
  have h1: "distinct (suggestedBPs cfg_x)"
    by (simp add: cfg_x_def)
  have h2: "distinct (list (currentProducerStatics st_bqr))"
    by (simp add: st_bqr_def sample_statics_def)
  have sel: "selection cfg_x st_bqr = [''b'', ''q'', ''r'', ''x'']"
    by (simp add: selection_eq cfg_x_def st_bqr_def)
  have h3: "distinct (selection cfg_x st_bqr)" and h4: "length (selection cfg_x st_bqr) \<le> 30"
    by (simp_all add: sel)
  have out: "snd (voteForUs_reconcile id id cfg_x st_bqr) = [''b'', ''q'', ''r'', ''s'', ''t'', ''u'', ''x'']"
    by code_simp
  note main = reconcile_sorted_bounded_distinct [of id id cfg_x st_bqr]
  have s: "sorted (snd (voteForUs_reconcile id id cfg_x st_bqr))"
    using main by (rule conjunct1)
  have l: "length (snd (voteForUs_reconcile id id cfg_x st_bqr)) \<le> 30"
    using main h4 by blast
  have d: "distinct (snd (voteForUs_reconcile id id cfg_x st_bqr))"
    using main h0 h1 h2 h3 by blast
  show ?thesis
    by (intro conjI h0 h1 h2 h3 h4 out s l d)
qed

text \<open>
  C1 as stated fails in both of its other parts: with a suggestion listed twice in the
  configuration the array handed over contains it twice, and for the voter with 31
  votes it has 32 entries.
\<close>

theorem reconcile_counterexample:
  "\<not> distinct (snd (voteForUs_reconcile id id cfg_twice st_bqr))
   \<and> \<not> length (snd (voteForUs_reconcile id id cfg_x st31)) \<le> 30"
  by code_simp

text \<open>
  C2. The first scenario: of the three rows the two active ones remain, \<^verbatim>\<open>B\<close> before
  \<^verbatim>\<open>A\<close>, and the statistics of \<^verbatim>\<open>A\<close> are rank 2, votes 0, total 3000 and 33.33%.
\<close>

theorem scenario_ABC:
  "fst (getProducers cfg_A endpoint_ABC)
     = Inr [\<lparr>owner = ''B'', total_votes = ''2000'', is_active = 1\<rparr>,
            \<lparr>owner = ''A'', total_votes = ''1000'', is_active = 1\<rparr>]
   \<and> fst (startFetchingStatics big cfg_A endpoint_ABC st)
     = Inr \<lparr>rank = 2, votes = Finite 0, totalVotes = Finite 3000, percentage = ''33.33%'',
            list = [''B'', ''A'']\<rparr>"
  by (simp add: startFetchingStatics_def getProducers_ABC computeStatics_def cfg_A_target
      p1000 p2000 num_eval print_eval)

text \<open>
  C3, as amended. With \<^verbatim>\<open>roomForMoreBPs\<close> 1 and 29 entries in the original selection,
  the array handed over is the original selection with the current producer added when
  absent, sorted, and nothing is filled in, provided the current producer was absent or
  \<^verbatim>\<open>addRecommendedBPs\<close> is off.
\<close>

theorem reconcile_room_one:
  assumes "roomForMoreBPs st = 1"
    and "length (originalBPSelection st) = 29"
    and "currentProducer cfg \<notin> set (originalBPSelection st) \<or> \<not> addRecommendedBPs st"
  shows "snd (voteForUs_reconcile shuffle1 shuffle2 cfg st)
           = sort (if currentProducer cfg \<in> set (originalBPSelection st)
                   then originalBPSelection st
                   else originalBPSelection st @ [currentProducer cfg])
         \<and> set (snd (voteForUs_reconcile shuffle1 shuffle2 cfg st))
           = set (originalBPSelection st) \<union> {currentProducer cfg}"
proof -
  obtain r st1 where sel: "voteForUs_select cfg st = (r, st1)"
    by (cases "voteForUs_select cfg st")
  have add: "addRecommendedBPs st1 = addRecommendedBPs st"
    using sel by (auto simp: voteForUs_select_def split: if_splits)
  have B: "deref st1 r = (if currentProducer cfg \<in> set (originalBPSelection st)
                   then originalBPSelection st
                   else originalBPSelection st @ [currentProducer cfg])"
    using select_deref [OF sel] assms(1) by (simp add: selection_eq)
  have "\<not> (addRecommendedBPs st1 \<and> length (deref st1 r) < 30)"
    using assms(2,3) by (auto simp: add B)
  then have "voteForUs_fill shuffle1 shuffle2 cfg st1 r = r"
    unfolding voteForUs_fill_def by (simp only: if_False)
  then have "snd (voteForUs_reconcile shuffle1 shuffle2 cfg st) = sort (deref st1 r)"
    by (simp add: reconcile_out [OF sel])
  then show ?thesis
    by (auto simp: B)
qed

text \<open>
  A voter with 29 votes, the current producer not among them, recommendations on.
\<close>

theorem reconcile_room_one_witness:
  "roomForMoreBPs st29 = 1 \<and> length (originalBPSelection st29) = 29
   \<and> currentProducer cfg_x \<notin> set (originalBPSelection st29) \<and> addRecommendedBPs st29
   \<and> snd (voteForUs_reconcile id id cfg_x st29) = sort (names28 @ [''t'', ''x''])
   \<and> set (snd (voteForUs_reconcile id id cfg_x st29))
        = set (originalBPSelection st29) \<union> {currentProducer cfg_x}"
proof -
  have h1: "roomForMoreBPs st29 = 1" and h4: "addRecommendedBPs st29"
    by (simp_all add: st29_def)
  have h2: "length (originalBPSelection st29) = 29"
    by (simp add: st29_def names28_def)
  have h3: "currentProducer cfg_x \<notin> set (originalBPSelection st29)"
    by (simp add: st29_def names28_def cfg_x_def)
  have o: "originalBPSelection st29 @ [currentProducer cfg_x] = names28 @ [''t'', ''x'']"
    by (simp add: st29_def cfg_x_def)
  show ?thesis
    using reconcile_room_one [of st29 cfg_x id id, OF h1 h2] h1 h2 h3 h4 o
    by (simp add: insert_commute)
qed

text \<open>
  C3 as stated fails: when the current producer is already among the 29 votes and
  \<^verbatim>\<open>addRecommendedBPs\<close> is on, the free slot is filled with the suggestion \<^verbatim>\<open>s\<close>.
\<close>

theorem reconcile_room_one_counterexample:
  "roomForMoreBPs st29_voted = 1 \<and> length (originalBPSelection st29_voted) = 29
   \<and> ''s'' \<in> set (snd (voteForUs_reconcile id id cfg_x st29_voted))
   \<and> ''s'' \<notin> set (originalBPSelection st29_voted) \<union> {currentProducer cfg_x}"
  by code_simp

text \<open>
  C4. When the account has no \<^verbatim>\<open>voter_info\<close>, \<^verbatim>\<open>getVotedProducers\<close> returns the empty list
  and leaves the state as it is: for a voter who has just logged in \<^verbatim>\<open>hasVotedForUs\<close>
  keeps its initial value \<^verbatim>\<open>true\<close>, and \<^verbatim>\<open>roomForMoreBPs\<close> its initial value 30.
\<close>

theorem getVotedProducers_no_voter_info:
  "getVotedProducers cfg (AccountInfo None) st = ([], st)
   \<and> hasVotedForUs (updateVotedProducers cfg_x (AccountInfo None) st_fresh) = True
   \<and> roomForMoreBPs (updateVotedProducers cfg_x (AccountInfo None) st_fresh) = 30"
  by (simp add: getVotedProducers_def updateVotedProducers_def st_fresh_def initial_state_def)

text \<open>
  C5. Expecting a hundred producers from an endpoint that returns fifty at every
  request, \<^verbatim>\<open>getProducers\<close> makes five requests, throws nothing and returns those fifty
  rows, filtered and sorted. It sleeps 2 seconds after each of the five requests, the
  last one included: five timers, not four.
\<close>

theorem getProducers_sleeps_after_last_attempt:
  "getProducers cfg100 endpoint50
     = (Inr (sort_by by_votes_desc rows50),
        [Request, Sleep 2000, Request, Sleep 2000, Request, Sleep 2000,
         Request, Sleep 2000, Request, Sleep 2000])
   \<and> length (sort_by by_votes_desc rows50) = 50
   \<and> count_list (snd (getProducers cfg100 endpoint50)) Request = 5
   \<and> count_list (snd (getProducers cfg100 endpoint50)) (Sleep 2000) = 5
   \<and> last (snd (getProducers cfg100 endpoint50)) = Sleep 2000"
  by (simp add: getProducers_def cfg100_def loop50 active_rows50 length_sort_by length_rows50)

text \<open>
  C6. The division by the total is not guarded. For a table whose only producer is the
  current producer with the weight 0, the total is 0 and the percentage is \<^verbatim>\<open>NaN%\<close>; with
  the weight 0.3 the total rounds to 0 and the percentage is \<^verbatim>\<open>Infinity%\<close>. Neither is a
  number with two decimals.
\<close>

theorem percentage_not_guarded:
  "currentProducer cfg_A \<in> owner ` set rows_A0
   \<and> totalVotes (fst (computeStatics sample_printer cfg_A rows_A0 initial_state)) = Finite 0
   \<and> percentage (fst (computeStatics sample_printer cfg_A rows_A0 initial_state)) = ''NaN%''
   \<and> fst (startFetchingStatics sample_printer cfg_A endpoint_A0 initial_state)
       = Inr \<lparr>rank = 1, votes = Finite 0, totalVotes = Finite 0, percentage = ''NaN%'',
              list = [''A'']\<rparr>
   \<and> currentProducer cfg_A \<in> owner ` set rows_A03
   \<and> totalVotes (fst (computeStatics sample_printer cfg_A rows_A03 initial_state)) = Finite 0
   \<and> percentage (fst (computeStatics sample_printer cfg_A rows_A03 initial_state))
       = ''Infinity%''"
proof -
  obtain trace where g: "getProducers cfg_A endpoint_A0 = (Inr rows_A0, trace)"
    using getProducers_A0 by (cases "getProducers cfg_A endpoint_A0") simp
  have "fst (startFetchingStatics sample_printer cfg_A endpoint_A0 initial_state)
       = Inr \<lparr>rank = 1, votes = Finite 0, totalVotes = Finite 0, percentage = ''NaN%'',
              list = [''A'']\<rparr>"
    by (simp add: startFetchingStatics_def g computeStatics_def cfg_A_target rows_A0_def p0
        num_eval)
  then show ?thesis
    by (simp add: computeStatics_def cfg_A_def rows_A0_def rows_A03_def p0 p03 num_eval)
qed

text \<open>
  C7. When the producers that \<^verbatim>\<open>getProducers\<close> returns are none, or the current producer
  is not among them, \<^verbatim>\<open>startFetchingStatics\<close> returns the zeroed statistics without
  throwing, and the statistics in the state are the empty ones.
\<close>

theorem startFetchingStatics_degraded:
  assumes "fst (getProducers cfg endpoint) = Inr producers"
    and "producers = [] \<or> currentProducer cfg \<notin> owner ` set producers"
  shows "fst (startFetchingStatics big cfg endpoint st)
           = Inr \<lparr>rank = 0, votes = Finite 0, totalVotes = Finite 0, percentage = [], list = []\<rparr>
         \<and> currentProducerStatics (fst (snd (startFetchingStatics big cfg endpoint st)))
           = emptyStatics"
proof -
  obtain trace where "getProducers cfg endpoint = (Inr producers, trace)"
    using assms(1) by (cases "getProducers cfg endpoint") simp
  then show ?thesis
    by (simp add: startFetchingStatics_def computeStatics_degraded [OF assms(2)])
qed

text \<open>
  The only active producer is \<^verbatim>\<open>B\<close> and the current producer is \<^verbatim>\<open>A\<close>.
\<close>

theorem startFetchingStatics_degraded_witness:
  "fst (getProducers cfg_A endpoint_B) = Inr rows_B
   \<and> currentProducer cfg_A \<notin> owner ` set rows_B
   \<and> fst (startFetchingStatics sample_printer cfg_A endpoint_B initial_state)
       = Inr \<lparr>rank = 0, votes = Finite 0, totalVotes = Finite 0, percentage = [], list = []\<rparr>"
proof -
  have absent: "currentProducer cfg_A \<notin> owner ` set rows_B"
    by (simp add: cfg_A_def rows_B_def)
  then have h: "rows_B = [] \<or> currentProducer cfg_A \<notin> owner ` set rows_B"
    by simp
  show ?thesis
    using startFetchingStatics_degraded [OF getProducers_B h, of sample_printer initial_state]
      getProducers_B absent
    by simp
qed

text \<open>
  C8. With room for more, \<^verbatim>\<open>voteForUs\<close> pushes the current producer onto the array of
  \<^verbatim>\<open>originalBPSelection\<close> itself: the stored original selection has changed when the
  array is handed over, and still after the wallet has accepted.
\<close>

theorem voteForUs_writes_original:
  "roomForMoreBPs st_bqr \<noteq> 0
   \<and> originalBPSelection st_bqr = [''b'', ''q'', ''r'']
   \<and> originalBPSelection (fst (voteForUs_reconcile id id cfg_x st_bqr)) = [''b'', ''q'', ''r'', ''x'']
   \<and> originalBPSelection (fst (voteForUs id id wallet_accepts NotOk cfg_x st_bqr))
        = [''b'', ''q'', ''r'', ''x'']"
  by code_simp

text \<open>
  C9. \<^verbatim>\<open>resetAll\<close> puts every field back to its initial value, except
  \<^verbatim>\<open>currentProducerStatics\<close>, which keeps the value it had.
\<close>

theorem resetAll_keeps_only_statics:
  "resetAll st = initial_state\<lparr>currentProducerStatics := currentProducerStatics st\<rparr>
   \<and> originalBPSelection (resetAll st) = [] \<and> modifiedBPSelection (resetAll st) = []
   \<and> roomForMoreBPs (resetAll st) = 30 \<and> logged (resetAll st) = None
   \<and> showDialog (resetAll st) = False \<and> thanks (resetAll st) = False
   \<and> hasVotedForUs (resetAll st) = True \<and> addRecommendedBPs (resetAll st) = True
   \<and> error (resetAll st) = []
   \<and> currentProducerStatics (resetAll st) = currentProducerStatics st"
  by (simp add: resetAll_def initial_state_def)

text \<open>
  C10, as amended. After a non-empty sequence of \<^verbatim>\<open>dropBP\<close> calls the original selection
  is what it was, and the modified selection is the original one with the current
  producer written at the index of the name dropped last (the original one itself when
  that name is not in it): it has the same length and differs in at most one position,
  that index, where it holds the current producer. \<^verbatim>\<open>resetModifiedBPSelection\<close> makes the
  modified selection equal to the original one; so \<^verbatim>\<open>dropBP\<close> followed by it leaves the
  modified selection as it was exactly when it was equal to the original one before.
\<close>

theorem dropBP_rebuilds_from_original:
  assumes "bps \<noteq> []"
  shows "(let st' = dropBPs cfg bps st;
              orig = originalBPSelection st';
              modi = modifiedBPSelection st'
          in orig = originalBPSelection st
             \<and> modi = (if last bps \<in> set orig
                       then orig[nat (indexOf orig (last bps)) := currentProducer cfg]
                       else orig)
             \<and> (last bps \<in> set orig
                  \<longrightarrow> nat (indexOf orig (last bps)) < length orig
                      \<and> modi ! nat (indexOf orig (last bps)) = currentProducer cfg)
             \<and> length modi = length orig
             \<and> length (differing_positions modi orig) \<le> 1
             \<and> (\<forall>i \<in> set (differing_positions modi orig).
                   int i = indexOf orig (last bps) \<and> modi ! i = currentProducer cfg))
         \<and> modifiedBPSelection (resetModifiedBPSelection st) = originalBPSelection st
         \<and> modifiedBPSelection (resetModifiedBPSelection (dropBP cfg bp st))
             = originalBPSelection st
         \<and> (modifiedBPSelection (resetModifiedBPSelection (dropBP cfg bp st))
               = modifiedBPSelection st
             \<longleftrightarrow> modifiedBPSelection st = originalBPSelection st)"
proof -
  let ?o = "originalBPSelection st"
  let ?i = "indexOf ?o (last bps)"
  let ?m = "modifiedBPSelection (dropBPs cfg bps st)"
  have m: "?m = (if ?i = - 1 then ?o else ?o[nat ?i := currentProducer cfg])"
    using assms by (simp add: dropBPs_modified dropBP_def Let_def)
  have range: "?i = - 1 \<or> (0 \<le> ?i \<and> ?i < int (length ?o))"
    unfolding indexOf_def by (rule findIndex_range)
  have mem: "last bps \<in> set ?o \<longleftrightarrow> ?i \<noteq> - 1"
    by (simp add: indexOf_member)
  have m': "?m = (if last bps \<in> set ?o then ?o[nat ?i := currentProducer cfg] else ?o)"
    by (simp add: m mem)
  have at: "nat ?i < length ?o \<and> ?m ! nat ?i = currentProducer cfg" if "last bps \<in> set ?o"
  proof -
    have "?i \<noteq> - 1"
      using that by (simp add: mem)
    then have "nat ?i < length ?o"
      using range by auto
    then show ?thesis
      using that by (simp add: m')
  qed
  have len: "length ?m = length ?o"
    by (simp add: m)
  have d1: "length (differing_positions ?m ?o) \<le> 1"
    using differing_update [of ?o "nat ?i" "currentProducer cfg"]
    by (simp add: m differing_same)
  have d2: "\<forall>i \<in> set (differing_positions ?m ?o). int i = ?i \<and> ?m ! i = currentProducer cfg"
  proof
    fix i assume i: "i \<in> set (differing_positions ?m ?o)"
    then have ne: "?i \<noteq> - 1"
      by (auto simp: m differing_same)
    with i have "i = nat ?i"
      using differing_update [of ?o "nat ?i" "currentProducer cfg"] by (auto simp: m)
    moreover have "nat ?i < length ?o"
      using range ne by auto
    ultimately show "int i = ?i \<and> ?m ! i = currentProducer cfg"
      using range ne by (auto simp: m)
  qed
  have r: "modifiedBPSelection (resetModifiedBPSelection (dropBP cfg bp st)) = ?o"
    by (simp add: resetModifiedBPSelection_def dropBP_def Let_def)
  have first: "(let st' = dropBPs cfg bps st;
              orig = originalBPSelection st';
              modi = modifiedBPSelection st'
          in orig = originalBPSelection st
             \<and> modi = (if last bps \<in> set orig
                       then orig[nat (indexOf orig (last bps)) := currentProducer cfg]
                       else orig)
             \<and> (last bps \<in> set orig
                  \<longrightarrow> nat (indexOf orig (last bps)) < length orig
                      \<and> modi ! nat (indexOf orig (last bps)) = currentProducer cfg)
             \<and> length modi = length orig
             \<and> length (differing_positions modi orig) \<le> 1
             \<and> (\<forall>i \<in> set (differing_positions modi orig).
                   int i = indexOf orig (last bps) \<and> modi ! i = currentProducer cfg))"
    unfolding Let_def dropBPs_original
    using m' at len d1 d2 by blast
  have second: "modifiedBPSelection (resetModifiedBPSelection st) = ?o"
    by (simp add: resetModifiedBPSelection_def)
  have third: "modifiedBPSelection (resetModifiedBPSelection (dropBP cfg bp st))
               = modifiedBPSelection st
             \<longleftrightarrow> modifiedBPSelection st = originalBPSelection st"
    unfolding r by auto
  show ?thesis
    using first second r third by blast
qed

text \<open>
  A voter with the votes \<^verbatim>\<open>b\<close>, \<^verbatim>\<open>q\<close>, \<^verbatim>\<open>r\<close> drops \<^verbatim>\<open>b\<close> and then \<^verbatim>\<open>q\<close>: the modified
  selection is \<^verbatim>\<open>b\<close>, \<^verbatim>\<open>x\<close>, \<^verbatim>\<open>r\<close>, only position 1 differs, and from the untouched state a
  drop followed by a reset gives the modified selection back.
\<close>

theorem dropBP_witness:
  "[''b'', ''q''] \<noteq> []
   \<and> last [''b'', ''q''] \<in> set (originalBPSelection st_bqr)
   \<and> modifiedBPSelection st_bqr = originalBPSelection st_bqr
   \<and> modifiedBPSelection (dropBPs cfg_x [''b'', ''q''] st_bqr) = [''b'', ''x'', ''r'']
   \<and> differing_positions (modifiedBPSelection (dropBPs cfg_x [''b'', ''q''] st_bqr))
        (originalBPSelection (dropBPs cfg_x [''b'', ''q''] st_bqr)) = [1]
   \<and> indexOf (originalBPSelection st_bqr) ''q'' = 1
   \<and> modifiedBPSelection (resetModifiedBPSelection (dropBP cfg_x ''q'' st_bqr))
       = modifiedBPSelection st_bqr"
proof -
  have ne: "[''b'', ''q''] \<noteq> []"
    by simp
  have la: "last [''b'', ''q''] \<in> set (originalBPSelection st_bqr)"
    by (simp add: st_bqr_def)
  have m: "modifiedBPSelection (dropBPs cfg_x [''b'', ''q''] st_bqr) = [''b'', ''x'', ''r'']"
    by code_simp
  have d: "differing_positions (modifiedBPSelection (dropBPs cfg_x [''b'', ''q''] st_bqr))
        (originalBPSelection (dropBPs cfg_x [''b'', ''q''] st_bqr)) = [1]"
    by code_simp
  have i: "indexOf (originalBPSelection st_bqr) ''q'' = 1"
    by code_simp
  have e: "modifiedBPSelection st_bqr = originalBPSelection st_bqr"
    by (simp add: st_bqr_def)
  have r: "modifiedBPSelection (resetModifiedBPSelection (dropBP cfg_x ''q'' st_bqr))
       = modifiedBPSelection st_bqr"
    using dropBP_rebuilds_from_original [OF ne, of cfg_x st_bqr "''q''"] e by blast
  show ?thesis
    by (intro conjI ne la e m d i r)
qed

text \<open>
  C10 as stated fails in its last part: after \<^verbatim>\<open>b\<close> has been dropped the modified
  selection is \<^verbatim>\<open>x\<close>, \<^verbatim>\<open>q\<close>, \<^verbatim>\<open>r\<close>, and dropping \<^verbatim>\<open>q\<close> and resetting gives \<^verbatim>\<open>b\<close>, \<^verbatim>\<open>q\<close>, \<^verbatim>\<open>r\<close>:
  the two calls are not the identity on the modified selection.
\<close>

theorem dropBP_reset_counterexample:
  "modifiedBPSelection (dropBP cfg_x ''b'' st_bqr) = [''x'', ''q'', ''r'']
   \<and> modifiedBPSelection (resetModifiedBPSelection (dropBP cfg_x ''q'' (dropBP cfg_x ''b'' st_bqr)))
       = [''b'', ''q'', ''r'']
   \<and> modifiedBPSelection (resetModifiedBPSelection (dropBP cfg_x ''q'' (dropBP cfg_x ''b'' st_bqr)))
       \<noteq> modifiedBPSelection (dropBP cfg_x ''b'' st_bqr)"
  by code_simp

end
